theory Spec2Isabelle
  imports Main "HOL-Library.Sublist"
begin

section \<open>Configuration records of docker.go\<close>

text \<open>
  The five configuration structs of the \<^verbatim>\<open>type ( ... )\<close> block, field by field. Several
  structs share field names (\<^verbatim>\<open>Registry\<close>, \<^verbatim>\<open>Repo\<close>, \<^verbatim>\<open>Tags\<close>, \<^verbatim>\<open>Pull\<close>, \<^verbatim>\<open>Args\<close>);
  such a field is always written with its record's name in front.
\<close>

record Daemon =
  Registry :: string
  Mirror :: string
  Insecure :: bool
  StorageDriver :: string
  StoragePath :: string
  Disabled :: bool
  Debug :: bool
  Bip :: string
  DNS :: "string list"
  DNSSearch :: "string list"
  MTU :: string
  IPv6 :: bool
  Experimental :: bool

record Login =
  Registry :: string
  Username :: string
  Password :: string
  Email :: string

record Pull =
  Repo :: string
  Sha :: string

record Build =
  Remote :: string
  Name :: string
  Dockerfile :: string
  Context :: string
  Tags :: "string list"
  Args :: "string list"
  ArgsEnv :: "string list"
  Target :: string
  Squash :: bool
  Pull :: bool
  CacheFrom :: "string list"
  Compress :: bool
  Repo :: string
  LabelSchema :: "string list"
  Labels :: "string list"
  NoCache :: bool
  AddHost :: "string list"

record Plugin =
  Login :: Login
  Pull :: Pull
  Daemon :: Daemon
  Dryrun :: bool
  Cleanup :: bool
  Tags :: "string list"

section \<open>External commands\<close>

text \<open>
  An \<^verbatim>\<open>*exec.Cmd\<close> as far as docker.go touches it: the argument vector (whose head is the
  program name), the standard-input payload when one is attached with
  \<^verbatim>\<open>strings.NewReader\<close>, and the two output streams, which \<^verbatim>\<open>Exec\<close> sets to the
  process's own before running a batch command.
\<close>

datatype stream = OsStdout | OsStderr

record Cmd =
  Args :: "string list"
  Stdin :: "string option"
  Stdout :: "stream option"
  Stderr :: "stream option"

text \<open>\<^verbatim>\<open>exec.Command(name, arg...)\<close>: the vector is the name followed by the arguments.\<close>

definition Command :: "string \<Rightarrow> string list \<Rightarrow> Cmd" where
  "Command name arg = \<lparr>Cmd.Args = name # arg, Stdin = None, Stdout = None, Stderr = None\<rparr>"

text \<open>
  The constants \<^verbatim>\<open>dockerExe\<close> and \<^verbatim>\<open>dockerdExe\<close> are declared in another file of the
  package; every builder below takes the one it uses as its first argument.
\<close>

definition commandVersion :: "string \<Rightarrow> Cmd" where
  "commandVersion dockerExe = Command dockerExe [''version'']"

definition commandInfo :: "string \<Rightarrow> Cmd" where
  "commandInfo dockerExe = Command dockerExe [''info'']"

definition commandLoginEmail :: "string \<Rightarrow> Login \<Rightarrow> Cmd" where
  "commandLoginEmail dockerExe login =
     (let cmd = Command dockerExe
            [''login'', ''-u'', Username login, ''--password-stdin'',
             ''-e'', Email login, Login.Registry login]
      in cmd\<lparr>Stdin := Some (Password login)\<rparr>)"

definition commandLogin :: "string \<Rightarrow> Login \<Rightarrow> Cmd" where
  "commandLogin dockerExe login =
     (if Email login \<noteq> '''' then commandLoginEmail dockerExe login
      else (let cmd = Command dockerExe
                  [''login'', ''-u'', Username login, ''--password-stdin'',
                   Login.Registry login]
            in cmd\<lparr>Stdin := Some (Password login)\<rparr>))"

text \<open>
  \<^verbatim>\<open>len(args) > 2 && args[1] == "pull"\<close>: the index is read only behind the length test.
\<close>

definition isCommandPull :: "string list \<Rightarrow> bool" where
  "isCommandPull args = (length args > 2 \<and> args ! 1 = ''pull'')"

definition commandPull :: "string \<Rightarrow> Pull \<Rightarrow> Cmd" where
  "commandPull dockerExe pull =
     Command dockerExe [''pull'', Pull.Repo pull @ ''@'' @ Sha pull]"

text \<open>\<^verbatim>\<open>fmt.Sprintf\<close> with \<^verbatim>\<open>%s\<close> verbs only is concatenation.\<close>

definition commandTag :: "string \<Rightarrow> Pull \<Rightarrow> string \<Rightarrow> string \<Rightarrow> Cmd" where
  "commandTag dockerExe pull tag registry =
     (let source = Pull.Repo pull @ ''@'' @ Sha pull;
          target = registry @ ''/'' @ Pull.Repo pull @ '':'' @ tag
      in Command dockerExe [''tag'', source, target])"

definition commandPush :: "string \<Rightarrow> Pull \<Rightarrow> string \<Rightarrow> string \<Rightarrow> Cmd" where
  "commandPush dockerExe pull tag registry =
     (let target = registry @ ''/'' @ Pull.Repo pull @ '':'' @ tag
      in Command dockerExe [''push'', target])"

definition commandPrune :: "string \<Rightarrow> Cmd" where
  "commandPrune dockerExe = Command dockerExe [''system'', ''prune'', ''-f'']"

definition commandRmi :: "string \<Rightarrow> Pull \<Rightarrow> Cmd" where
  "commandRmi dockerExe pull =
     (let repository = Pull.Repo pull @ ''@'' @ Sha pull
      in Command dockerExe [''rmi'', repository])"

subsection \<open>The daemon command\<close>

text \<open>The two \<^verbatim>\<open>for ... range\<close> loops of \<^verbatim>\<open>commandDaemon\<close>, appending a flag and a value
  for each entry.\<close>

fun appendEach :: "string \<Rightarrow> string list \<Rightarrow> string list \<Rightarrow> string list" where
  "appendEach flag [] args = args"
| "appendEach flag (v # vs) args = appendEach flag vs (args @ [flag, v])"

definition commandDaemon :: "string \<Rightarrow> Daemon \<Rightarrow> Cmd" where
  "commandDaemon dockerdExe daemon =
     (let args = [''--data-root'', StoragePath daemon];
          args = (if StorageDriver daemon \<noteq> '''' then args @ [''-s'', StorageDriver daemon]
                  else args);
          args = (if Insecure daemon \<and> Daemon.Registry daemon \<noteq> ''''
                  then args @ [''--insecure-registry'', Daemon.Registry daemon] else args);
          args = (if IPv6 daemon then args @ [''--ipv6''] else args);
          args = (if length (Mirror daemon) \<noteq> 0
                  then args @ [''--registry-mirror'', Mirror daemon] else args);
          args = (if length (Bip daemon) \<noteq> 0 then args @ [''--bip'', Bip daemon] else args);
          args = appendEach ''--dns'' (DNS daemon) args;
          args = appendEach ''--dns-search'' (DNSSearch daemon) args;
          args = (if length (MTU daemon) \<noteq> 0 then args @ [''--mtu'', MTU daemon] else args);
          args = (if Experimental daemon then args @ [''--experimental''] else args)
      in Command dockerdExe args)"

section \<open>Proxy build arguments\<close>

text \<open>
  \<^verbatim>\<open>os.Getenv\<close> is a parameter \<open>getenv\<close> (the empty string for a variable that is not
  set, as in Go), and so is the library's \<^verbatim>\<open>strings.ToUpper\<close>, \<open>upper\<close>.
  \<^verbatim>\<open>strings.HasPrefix(s, prefix)\<close> is
  \<^verbatim>\<open>len(s) >= len(prefix) && s[0:len(prefix)] == prefix\<close>.
\<close>

definition HasPrefix :: "string \<Rightarrow> string \<Rightarrow> bool" where
  "HasPrefix s pre = (length s \<ge> length pre \<and> take (length pre) s = pre)"

definition getProxyValue :: "(string \<Rightarrow> string) \<Rightarrow> (string \<Rightarrow> string) \<Rightarrow> string \<Rightarrow> string" where
  "getProxyValue getenv upper key =
     (let v = getenv key in if length v > 0 then v else getenv (upper key))"

fun hasProxyLoop :: "string \<Rightarrow> string \<Rightarrow> string list \<Rightarrow> bool" where
  "hasProxyLoop key keyUpper [] = False"
| "hasProxyLoop key keyUpper (s # ss) =
     (if HasPrefix s key \<or> HasPrefix s keyUpper then True else hasProxyLoop key keyUpper ss)"

definition hasProxyBuildArg :: "(string \<Rightarrow> string) \<Rightarrow> Build \<Rightarrow> string \<Rightarrow> bool" where
  "hasProxyBuildArg upper build key =
     (let keyUpper = upper key in hasProxyLoop key keyUpper (Build.Args build))"

text \<open>\<^verbatim>\<open>addProxyValue\<close> writes through its \<^verbatim>\<open>*Build\<close>; the model returns the new value.\<close>

definition addProxyValue ::
  "(string \<Rightarrow> string) \<Rightarrow> (string \<Rightarrow> string) \<Rightarrow> Build \<Rightarrow> string \<Rightarrow> Build" where
  "addProxyValue getenv upper build key =
     (let v = getProxyValue getenv upper key in
      if length v > 0 \<and> \<not> hasProxyBuildArg upper build key then
        (let build = build\<lparr>Build.Args := Build.Args build @ [key @ ''='' @ v]\<rparr>
         in build\<lparr>Build.Args := Build.Args build @ [upper key @ ''='' @ v]\<rparr>)
      else build)"

definition addProxyBuildArgs ::
  "(string \<Rightarrow> string) \<Rightarrow> (string \<Rightarrow> string) \<Rightarrow> Build \<Rightarrow> Build" where
  "addProxyBuildArgs getenv upper build =
     (let build = addProxyValue getenv upper build ''http_proxy'';
          build = addProxyValue getenv upper build ''https_proxy''
      in addProxyValue getenv upper build ''no_proxy'')"

text \<open>
  \<^verbatim>\<open>commandBuild\<close> is not called by \<^verbatim>\<open>Exec\<close> and stamps its labels with the current
  time; it is left out of the model.
\<close>

text \<open>An upper-casing of the ASCII letters, for the concrete instances below.\<close>

definition asciiUpper :: "string \<Rightarrow> string" where
  "asciiUpper s =
     map (\<lambda>c. let n = (of_char c :: nat)
              in if 97 \<le> n \<and> n \<le> 122 then char_of (n - 32) else c) s"

section \<open>Running commands\<close>

text \<open>
  What \<^verbatim>\<open>Exec\<close> does to the outside world is a chronological list of events: a command
  launched in the background, a command run to completion, a sleep (in seconds) and a
  line written to standard output. The outcome of \<^verbatim>\<open>cmd.Run()\<close> belongs to the world,
  not to the program: it is a parameter \<open>sys\<close> that gives, for the events so far and the
  command, \<^verbatim>\<open>nil\<close> (\<open>None\<close>) or an error.
\<close>

datatype error = RunError string | Errorf string

fun Error :: "error \<Rightarrow> string" where
  "Error (RunError m) = m"
| "Error (Errorf m) = m"

datatype event = Started Cmd | Ran Cmd | Slept nat | Printed string

type_synonym system = "event list \<Rightarrow> Cmd \<Rightarrow> error option"

definition newline :: string where
  "newline = [CHR 0x0A]"

text \<open>\<^verbatim>\<open>strings.Join(elems, sep)\<close>.\<close>

fun Join :: "string list \<Rightarrow> string \<Rightarrow> string" where
  "Join [] sep = ''''"
| "Join [s] sep = s"
| "Join (s # t # ss) sep = s @ sep @ Join (t # ss) sep"

definition trace :: "Cmd \<Rightarrow> event list \<Rightarrow> event list" where
  "trace cmd h = h @ [Printed (''+ '' @ Join (Cmd.Args cmd) '' '' @ newline)]"

text \<open>
  Modelled from the spec: \<^verbatim>\<open>startDaemon\<close> is a method of another file of the package.
  The daemon-start invocation is issued asynchronously, and its exit status is neither
  awaited nor checked.
\<close>

definition startDaemon :: "string \<Rightarrow> Plugin \<Rightarrow> event list \<Rightarrow> event list" where
  "startDaemon dockerdExe p h = h @ [Started (commandDaemon dockerdExe (Daemon p))]"

text \<open>The readiness loop \<^verbatim>\<open>for i := 0; i < 15; i++\<close>, entered at \<open>i\<close>.\<close>

function pollDaemon :: "string \<Rightarrow> system \<Rightarrow> nat \<Rightarrow> event list \<Rightarrow> event list" where
  "pollDaemon dockerExe sys i h =
     (if i < 15 then
        (let cmd = commandInfo dockerExe;
             err = sys h cmd;
             h = h @ [Ran cmd]
         in if err = None then h
            else pollDaemon dockerExe sys (i + 1) (h @ [Slept 1]))
      else h)"
  by pat_completeness auto
termination
  by (relation "measure (\<lambda>(dockerExe, sys, i, h). 15 - i)") auto

text \<open>The tag loop \<^verbatim>\<open>for _, tag := range p.Tags\<close>, appending to \<^verbatim>\<open>cmds\<close>.\<close>

fun tagCmds :: "string \<Rightarrow> Plugin \<Rightarrow> string list \<Rightarrow> Cmd list \<Rightarrow> Cmd list" where
  "tagCmds dockerExe p [] cmds = cmds"
| "tagCmds dockerExe p (tag # tags) cmds =
     (let cmds = cmds @ [commandTag dockerExe (Plugin.Pull p) tag (Daemon.Registry (Daemon p))];
          cmds = (if Dryrun p = False
                  then cmds @ [commandPush dockerExe (Plugin.Pull p) tag (Daemon.Registry (Daemon p))]
                  else cmds)
      in tagCmds dockerExe p tags cmds)"

text \<open>The batch \<^verbatim>\<open>cmds\<close> as \<^verbatim>\<open>Exec\<close> assembles it.\<close>

definition batchCmds :: "string \<Rightarrow> Plugin \<Rightarrow> Cmd list" where
  "batchCmds dockerExe p =
     (let cmds = [];
          cmds = cmds @ [commandVersion dockerExe];
          cmds = cmds @ [commandInfo dockerExe];
          cmds = cmds @ [commandPull dockerExe (Plugin.Pull p)];
          cmds = tagCmds dockerExe p (Plugin.Tags p) cmds;
          cmds = (if Cleanup p
                  then (cmds @ [commandRmi dockerExe (Plugin.Pull p)]) @ [commandPrune dockerExe]
                  else cmds)
      in cmds)"

text \<open>The execution loop \<^verbatim>\<open>for _, cmd := range cmds\<close>; it returns \<^verbatim>\<open>Exec\<close>'s result.\<close>

fun runCmds :: "system \<Rightarrow> Cmd list \<Rightarrow> event list \<Rightarrow> error option \<times> event list" where
  "runCmds sys [] h = (None, h)"
| "runCmds sys (cmd # cmds) h =
     (let cmd = cmd\<lparr>Stdout := Some OsStdout, Stderr := Some OsStderr\<rparr>;
          h = trace cmd h;
          err = sys h cmd;
          h = h @ [Ran cmd]
      in if err \<noteq> None \<and> isCommandPull (Cmd.Args cmd) then
           runCmds sys cmds
             (h @ [Printed (''Could not pull cache-from image '' @ Cmd.Args cmd ! 2
                            @ ''. Ignoring...'' @ newline)])
         else if err \<noteq> None then (err, h)
         else runCmds sys cmds h)"

text \<open>The login step and what follows it, from the events \<open>h\<close> that precede it.\<close>

definition loginAndBatch ::
  "string \<Rightarrow> system \<Rightarrow> Plugin \<Rightarrow> event list \<Rightarrow> error option \<times> event list" where
  "loginAndBatch dockerExe sys p h =
     (if Password (Login p) \<noteq> '''' then
        (let cmd = commandLogin dockerExe (Login p);
             err = sys h cmd;
             h = h @ [Ran cmd]
         in case err of
              Some e \<Rightarrow> (Some (Errorf (''Error authenticating: '' @ Error e)), h)
            | None \<Rightarrow> runCmds sys (batchCmds dockerExe p) h)
      else
        (let h = h @ [Printed (''Registry credentials not provided. Guest mode enabled.''
                               @ newline)]
         in runCmds sys (batchCmds dockerExe p) h))"

text \<open>The events up to the end of the readiness loop.\<close>

definition daemonReady :: "string \<Rightarrow> string \<Rightarrow> system \<Rightarrow> Plugin \<Rightarrow> event list" where
  "daemonReady dockerExe dockerdExe sys p =
     (let h = (if \<not> Disabled (Daemon p) then startDaemon dockerdExe p [] else [])
      in pollDaemon dockerExe sys 0 h)"

definition Exec ::
  "string \<Rightarrow> string \<Rightarrow> system \<Rightarrow> Plugin \<Rightarrow> error option \<times> event list" where
  "Exec dockerExe dockerdExe sys p =
     loginAndBatch dockerExe sys p (daemonReady dockerExe dockerdExe sys p)"

section \<open>Notions used in the statements\<close>

text \<open>A batch command as the execution loop runs it, with both output streams set.\<close>

definition withStd :: "Cmd \<Rightarrow> Cmd" where
  "withStd cmd = cmd\<lparr>Stdout := Some OsStdout, Stderr := Some OsStderr\<rparr>"

text \<open>One failed round of the readiness loop: the probe, then the sleep of one second.\<close>

definition pollRound :: "string \<Rightarrow> event list" where
  "pollRound exe = [Ran (commandInfo exe), Slept 1]"

text \<open>The number of readiness probes among the events.\<close>

definition attempts :: "string \<Rightarrow> event list \<Rightarrow> nat" where
  "attempts exe h = length (filter (\<lambda>e. e = Ran (commandInfo exe)) h)"

text \<open>\<open>a\<close> immediately followed by \<open>b\<close> somewhere in the list.\<close>

fun adjacent :: "'a \<Rightarrow> 'a \<Rightarrow> 'a list \<Rightarrow> bool" where
  "adjacent a b (x # y # xs) = ((x = a \<and> y = b) \<or> adjacent a b (y # xs))"
| "adjacent a b xs = False"

text \<open>The argument vectors of the commands run, and the lines printed, in order.\<close>

fun ranArgs :: "event list \<Rightarrow> string list list" where
  "ranArgs [] = []"
| "ranArgs (Ran c # es) = Cmd.Args c # ranArgs es"
| "ranArgs (e # es) = ranArgs es"

fun printed :: "event list \<Rightarrow> string list" where
  "printed [] = []"
| "printed (Printed s # es) = s # printed es"
| "printed (e # es) = printed es"

subsection \<open>Concrete configurations and worlds\<close>

definition emptyDaemon :: Daemon where
  "emptyDaemon = \<lparr>Daemon.Registry = '''', Mirror = '''', Insecure = False, StorageDriver = '''',
     StoragePath = '''', Disabled = False, Debug = False, Bip = '''', DNS = [], DNSSearch = [],
     MTU = '''', IPv6 = False, Experimental = False\<rparr>"

definition someDaemon :: Daemon where
  "someDaemon = \<lparr>Daemon.Registry = ''r.example'', Mirror = '''', Insecure = True,
     StorageDriver = ''overlay2'', StoragePath = '''', Disabled = False, Debug = True, Bip = '''',
     DNS = [''8.8.8.8'', ''1.1.1.1''], DNSSearch = [], MTU = '''', IPv6 = False,
     Experimental = True\<rparr>"

definition someLogin :: Login where
  "someLogin = \<lparr>Login.Registry = ''r.example'', Username = ''bot'', Password = ''hunter2'',
                 Email = ''bot@example.org''\<rparr>"

definition someBuild :: "string list \<Rightarrow> Build" where
  "someBuild as = \<lparr>Remote = '''', Name = ''img'', Dockerfile = ''Dockerfile'', Context = ''.'',
     Build.Tags = [], Build.Args = as, ArgsEnv = [], Target = '''', Squash = False,
     Build.Pull = False, CacheFrom = [], Compress = False, Build.Repo = '''', LabelSchema = [],
     Labels = [], NoCache = False, AddHost = []\<rparr>"

text \<open>An environment in which only \<^verbatim>\<open>HTTP_PROXY=foo\<close> is set.\<close>

definition upperEnv :: "string \<Rightarrow> string" where
  "upperEnv k = (if k = ''HTTP_PROXY'' then ''foo'' else '''')"

text \<open>The scenario of the specification, in guest mode and with the daemon managed elsewhere.\<close>

definition scenario :: Plugin where
  "scenario = \<lparr>Login = \<lparr>Login.Registry = '''', Username = '''', Password = '''', Email = ''''\<rparr>,
     Plugin.Pull = \<lparr>Pull.Repo = ''acct/img'', Sha = ''sha256:abc''\<rparr>,
     Daemon = \<lparr>Daemon.Registry = ''r.example'', Mirror = '''', Insecure = False,
       StorageDriver = '''', StoragePath = '''', Disabled = True, Debug = False, Bip = '''',
       DNS = [], DNSSearch = [], MTU = '''', IPv6 = False, Experimental = False\<rparr>,
     Dryrun = False, Cleanup = True, Plugin.Tags = [''v1'', ''v2'']\<rparr>"

definition exitStatus1 :: error where
  "exitStatus1 = RunError ''exit status 1''"

text \<open>Worlds: one where only the pull of the source image fails, one where the readiness
  probe never succeeds, one where only the login fails.\<close>

definition pullFails :: system where
  "pullFails h c = (if Cmd.Args c = [''docker'', ''pull'', ''acct/img@sha256:abc'']
                    then Some exitStatus1 else None)"

definition neverReady :: system where
  "neverReady h c = (if c = commandInfo ''docker'' then Some exitStatus1 else None)"

definition loginFails :: system where
  "loginFails h c = (if take 2 (Cmd.Args c) = [''docker'', ''login''] then Some exitStatus1
                     else None)"

section \<open>Auxiliary facts\<close>

lemmas cmd_defs = commandVersion_def commandInfo_def commandPull_def commandTag_def
  commandPush_def commandRmi_def commandPrune_def Command_def

lemma appendEach_eq: "appendEach flag vs args = args @ concat (map (\<lambda>v. [flag, v]) vs)"
  by (induction vs arbitrary: args) simp_all

lemma HasPrefix_prefix: "HasPrefix s pre \<longleftrightarrow> prefix pre s"
  unfolding HasPrefix_def
  by (metis append_eq_conv_conj prefix_def prefix_length_le take_is_prefix)

lemma hasProxyLoop_iff:
  "hasProxyLoop key ku ss \<longleftrightarrow> (\<exists>s \<in> set ss. prefix key s \<or> prefix ku s)"
  by (induction ss) (auto simp: HasPrefix_prefix)

lemma asciiUpper_http: "asciiUpper ''http_proxy'' = ''HTTP_PROXY''"
  by code_simp

lemma tagCmds_eq:
  "tagCmds exe p tags cmds =
     cmds @ concat (map (\<lambda>tag. if Dryrun p
                     then [commandTag exe (Plugin.Pull p) tag (Daemon.Registry (Daemon p))]
                     else [commandTag exe (Plugin.Pull p) tag (Daemon.Registry (Daemon p)),
                           commandPush exe (Plugin.Pull p) tag (Daemon.Registry (Daemon p))]) tags)"
  by (induction tags arbitrary: cmds) (simp_all add: Let_def)

lemma batchCmds_eq:
  "batchCmds exe p =
     [commandVersion exe, commandInfo exe, commandPull exe (Plugin.Pull p)]
     @ concat (map (\<lambda>tag. if Dryrun p
                     then [commandTag exe (Plugin.Pull p) tag (Daemon.Registry (Daemon p))]
                     else [commandTag exe (Plugin.Pull p) tag (Daemon.Registry (Daemon p)),
                           commandPush exe (Plugin.Pull p) tag (Daemon.Registry (Daemon p))])
               (Plugin.Tags p))
     @ (if Cleanup p then [commandRmi exe (Plugin.Pull p), commandPrune exe] else [])"
  by (simp add: batchCmds_def tagCmds_eq Let_def)

subsection \<open>The readiness loop and the execution loop\<close>

declare pollDaemon.simps [simp del]

lemma pollDaemon_done: "\<not> i < 15 \<Longrightarrow> pollDaemon exe sys i h = h"
  by (subst pollDaemon.simps) simp

lemma pollDaemon_ready:
  "i < 15 \<Longrightarrow> sys h (commandInfo exe) = None \<Longrightarrow>
   pollDaemon exe sys i h = h @ [Ran (commandInfo exe)]"
  by (subst pollDaemon.simps) (simp add: Let_def)

lemma pollDaemon_retry:
  "i < 15 \<Longrightarrow> sys h (commandInfo exe) \<noteq> None \<Longrightarrow>
   pollDaemon exe sys i h = pollDaemon exe sys (i + 1) ((h @ [Ran (commandInfo exe)]) @ [Slept 1])"
  by (subst pollDaemon.simps) (auto simp: Let_def)

lemma pollDaemon_shape:
  "\<exists>k. i + k \<le> max i 15 \<and>
       pollDaemon exe sys i h =
         h @ concat (replicate k (pollRound exe)) @ (if i + k < 15 then [Ran (commandInfo exe)] else []) \<and>
       (\<forall>j<k. sys (h @ concat (replicate j (pollRound exe))) (commandInfo exe) \<noteq> None) \<and>
       (i + k < 15 \<longrightarrow> sys (h @ concat (replicate k (pollRound exe))) (commandInfo exe) = None)"
proof (induction exe sys i h rule: pollDaemon.induct)
  case (1 exe sys i h)
  show ?case
  proof (cases "i < 15")
    case False
    then show ?thesis
      by (intro exI [of _ 0]) (simp add: pollDaemon_done)
  next
    case lt: True
    show ?thesis
    proof (cases "sys h (commandInfo exe) = None")
      case True
      with lt show ?thesis
        by (intro exI [of _ 0]) (simp add: pollDaemon_ready)
    next
      case False
      let ?h' = "(h @ [Ran (commandInfo exe)]) @ [Slept 1]"
      from "1.IH" [OF lt refl refl refl False]
      obtain k where k: "i + 1 + k \<le> max (i + 1) 15"
        and eq: "pollDaemon exe sys (i + 1) ?h' =
                 ?h' @ concat (replicate k (pollRound exe)) @
                 (if i + 1 + k < 15 then [Ran (commandInfo exe)] else [])"
        and fails: "\<forall>j<k. sys (?h' @ concat (replicate j (pollRound exe))) (commandInfo exe) \<noteq> None"
        and ok: "i + 1 + k < 15 \<longrightarrow>
                 sys (?h' @ concat (replicate k (pollRound exe))) (commandInfo exe) = None"
        by blast
      have h': "?h' @ concat (replicate j (pollRound exe)) = h @ concat (replicate (Suc j) (pollRound exe))" for j
        by (simp add: pollRound_def)
      have step: "pollDaemon exe sys i h = pollDaemon exe sys (i + 1) ?h'"
        using lt False by (rule pollDaemon_retry)
      have fails': "\<forall>j<Suc k. sys (h @ concat (replicate j (pollRound exe))) (commandInfo exe) \<noteq> None"
      proof (intro allI impI)
        fix j assume "j < Suc k"
        show "sys (h @ concat (replicate j (pollRound exe))) (commandInfo exe) \<noteq> None"
        proof (cases j)
          case 0 with False show ?thesis by simp
        next
          case (Suc j')
          with \<open>j < Suc k\<close> fails have "sys (?h' @ concat (replicate j' (pollRound exe))) (commandInfo exe) \<noteq> None"
            by simp
          then show ?thesis unfolding h' Suc .
        qed
      qed
      have ok': "i + Suc k < 15 \<longrightarrow>
                 sys (h @ concat (replicate (Suc k) (pollRound exe))) (commandInfo exe) = None"
        using ok unfolding h' by simp
      have eq': "pollDaemon exe sys i h =
                 h @ concat (replicate (Suc k) (pollRound exe)) @
                 (if i + Suc k < 15 then [Ran (commandInfo exe)] else [])"
        using eq unfolding step by (simp add: pollRound_def)
      show ?thesis
      proof (intro exI [of _ "Suc k"] conjI)
        show "i + Suc k \<le> max i 15" using k lt by simp
      qed (fact eq' fails' ok')+
    qed
  qed
qed


lemma pollDaemon_first_ready:
  assumes "k < 15"
    and "\<forall>j<k. sys (h @ concat (replicate j (pollRound exe))) (commandInfo exe) \<noteq> None"
    and "sys (h @ concat (replicate k (pollRound exe))) (commandInfo exe) = None"
  shows "pollDaemon exe sys 0 h = h @ concat (replicate k (pollRound exe)) @ [Ran (commandInfo exe)]"
proof -
  obtain k' where le: "0 + k' \<le> max 0 (15::nat)"
    and eq: "pollDaemon exe sys 0 h =
             h @ concat (replicate k' (pollRound exe)) @
             (if 0 + k' < 15 then [Ran (commandInfo exe)] else [])"
    and fails: "\<forall>j<k'. sys (h @ concat (replicate j (pollRound exe))) (commandInfo exe) \<noteq> None"
    and ok: "0 + k' < 15 \<longrightarrow>
             sys (h @ concat (replicate k' (pollRound exe))) (commandInfo exe) = None"
    using pollDaemon_shape [of 0 exe sys h] by blast
  have "\<not> k < k'" using fails assms(3) by blast
  moreover have "\<not> k' < k" using ok assms(1,2) by auto
  ultimately have "k' = k" by simp
  with eq assms(1) show ?thesis by simp
qed

lemma pollDaemon_never_ready:
  assumes "\<forall>j<15. sys (h @ concat (replicate j (pollRound exe))) (commandInfo exe) \<noteq> None"
  shows "pollDaemon exe sys 0 h = h @ concat (replicate 15 (pollRound exe))"
proof -
  obtain k' where le: "0 + k' \<le> max 0 (15::nat)"
    and eq: "pollDaemon exe sys 0 h =
             h @ concat (replicate k' (pollRound exe)) @
             (if 0 + k' < 15 then [Ran (commandInfo exe)] else [])"
    and ok: "0 + k' < 15 \<longrightarrow>
             sys (h @ concat (replicate k' (pollRound exe))) (commandInfo exe) = None"
    using pollDaemon_shape [of 0 exe sys h] by blast
  have "\<not> k' < 15" using ok assms by auto
  with le have "k' = 15" by simp
  with eq show ?thesis by simp
qed

lemma attempts_append: "attempts exe (h @ h') = attempts exe h + attempts exe h'"
  by (simp add: attempts_def)

lemma attempts_rounds: "attempts exe (concat (replicate k (pollRound exe))) = k"
  by (induction k) (simp_all add: attempts_def pollRound_def)

lemma pollDaemon_attempts: "attempts exe (pollDaemon exe sys 0 h) \<le> attempts exe h + 15"
proof -
  obtain k' where le: "0 + k' \<le> max 0 (15::nat)"
    and eq: "pollDaemon exe sys 0 h =
             h @ concat (replicate k' (pollRound exe)) @
             (if 0 + k' < 15 then [Ran (commandInfo exe)] else [])"
    using pollDaemon_shape [of 0 exe sys h] by blast
  show ?thesis
    unfolding eq using le
    by (simp add: attempts_append attempts_rounds) (simp add: attempts_def)
qed

lemma isCommandPull_withStd [simp]: "Cmd.Args (withStd cmd) = Cmd.Args cmd"
  by (simp add: withStd_def)

lemma runCmds_Cons:
  "runCmds sys (cmd # cmds) h =
     (if sys (trace (withStd cmd) h) (withStd cmd) \<noteq> None \<and> isCommandPull (Cmd.Args cmd) then
        runCmds sys cmds
          (trace (withStd cmd) h @
           [Ran (withStd cmd),
            Printed (''Could not pull cache-from image '' @ Cmd.Args cmd ! 2 @ ''. Ignoring...'' @ newline)])
      else if sys (trace (withStd cmd) h) (withStd cmd) \<noteq> None then
        (sys (trace (withStd cmd) h) (withStd cmd), trace (withStd cmd) h @ [Ran (withStd cmd)])
      else runCmds sys cmds (trace (withStd cmd) h @ [Ran (withStd cmd)]))"
  by (simp add: Let_def withStd_def)

declare runCmds.simps(2) [simp del]

lemma runCmds_only_pulls_fail:
  "(\<And>h c. sys h c \<noteq> None \<Longrightarrow> isCommandPull (Cmd.Args c)) \<Longrightarrow> fst (runCmds sys cmds h) = None"
proof (induction cmds arbitrary: h)
  case Nil
  show ?case by simp
next
  case (Cons cmd cmds)
  show ?case
  proof (cases "sys (trace (withStd cmd) h) (withStd cmd) = None")
    case True
    then show ?thesis using Cons by (simp add: runCmds_Cons)
  next
    case False
    with Cons.prems have "isCommandPull (Cmd.Args cmd)"
      by (metis isCommandPull_withStd)
    with False show ?thesis using Cons by (simp add: runCmds_Cons)
  qed
qed

lemma runCmds_prefix: "prefix h (snd (runCmds sys cmds h))"
proof (induction cmds arbitrary: h)
  case Nil
  show ?case by simp
next
  case (Cons cmd cmds)
  have a: "prefix h (snd (runCmds sys cmds ((trace (withStd cmd) h @ [Ran (withStd cmd)]) @ h')))" for h'
  proof -
    have "prefix (h @ ([Printed (''+ '' @ Join (Cmd.Args (withStd cmd)) '' '' @ newline),
                        Ran (withStd cmd)] @ h'))
            (snd (runCmds sys cmds ((trace (withStd cmd) h @ [Ran (withStd cmd)]) @ h')))"
      using Cons.IH [of "(trace (withStd cmd) h @ [Ran (withStd cmd)]) @ h'"]
      by (simp add: trace_def)
    then show ?thesis by (rule append_prefixD)
  qed
  show ?case
  proof (cases "sys (trace (withStd cmd) h) (withStd cmd) = None")
    case True
    then show ?thesis using a [of "[]"] by (simp add: runCmds_Cons)
  next
    case False
    show ?thesis
    proof (cases "isCommandPull (Cmd.Args cmd)")
      case True
      with False show ?thesis
        using a [of "[Printed (''Could not pull cache-from image '' @ Cmd.Args cmd ! 2 @ ''. Ignoring...'' @ newline)]"]
        by (simp add: runCmds_Cons)
    next
      case notpull: False
      with False show ?thesis by (simp add: runCmds_Cons trace_def)
    qed
  qed
qed

lemma runCmds_Ran:
  "Ran c \<in> set (snd (runCmds sys cmds h)) \<Longrightarrow>
   Ran c \<in> set h \<or> (\<exists>cmd \<in> set cmds. c = withStd cmd)"
proof (induction cmds arbitrary: h)
  case Nil
  then show ?case by simp
next
  case (Cons cmd cmds)
  have a: "Ran c \<in> set h \<or> (\<exists>x \<in> set (cmd # cmds). c = withStd x)"
    if "Ran c \<in> set (snd (runCmds sys cmds ((trace (withStd cmd) h @ [Ran (withStd cmd)]) @ h')))"
      and "Ran c \<notin> set h'" for h'
  proof -
    from Cons.IH [OF that(1)]
    have "Ran c \<in> set ((trace (withStd cmd) h @ [Ran (withStd cmd)]) @ h') \<or>
          (\<exists>x \<in> set cmds. c = withStd x)" .
    with that(2) show ?thesis by (auto simp: trace_def)
  qed
  show ?case
  proof (cases "sys (trace (withStd cmd) h) (withStd cmd) = None")
    case True
    then show ?thesis using a [of "[]"] Cons.prems by (simp add: runCmds_Cons)
  next
    case False
    show ?thesis
    proof (cases "isCommandPull (Cmd.Args cmd)")
      case True
      with False show ?thesis
        using a [of "[Printed (''Could not pull cache-from image '' @ Cmd.Args cmd ! 2 @ ''. Ignoring...'' @ newline)]"]
          Cons.prems
        by (simp add: runCmds_Cons)
    next
      case notpull: False
      with False Cons.prems show ?thesis by (auto simp: runCmds_Cons trace_def)
    qed
  qed
qed

lemma runCmds_all_succeed:
  "(\<And>c h. c \<in> set cmds \<Longrightarrow> sys h (withStd c) = None) \<Longrightarrow> fst (runCmds sys cmds h) = None"
proof (induction cmds arbitrary: h)
  case Nil
  show ?case by simp
next
  case (Cons cmd cmds)
  have "sys (trace (withStd cmd) h) (withStd cmd) = None"
    using Cons.prems [of cmd] by simp
  moreover have "fst (runCmds sys cmds h') = None" for h'
    using Cons.IH [of h'] Cons.prems by simp
  ultimately show ?case by (simp add: runCmds_Cons)
qed

lemma withStd_not_info: "withStd cmd \<noteq> commandInfo exe"
proof
  assume "withStd cmd = commandInfo exe"
  then have "Stdout (withStd cmd) = Stdout (commandInfo exe)" by simp
  then show False by (simp add: withStd_def commandInfo_def Command_def)
qed

lemma pollDaemon_Ran:
  "Ran c \<in> set (pollDaemon exe sys i h) \<Longrightarrow> Ran c \<in> set h \<or> c = commandInfo exe"
proof -
  obtain k where eq: "pollDaemon exe sys i h =
         h @ concat (replicate k (pollRound exe)) @ (if i + k < 15 then [Ran (commandInfo exe)] else [])"
    using pollDaemon_shape [of i exe sys h] by blast
  assume "Ran c \<in> set (pollDaemon exe sys i h)"
  then show ?thesis
    unfolding eq by (auto simp: pollRound_def split: if_splits)
qed

lemma daemonReady_Ran:
  "Ran c \<in> set (daemonReady exe exed sys p) \<Longrightarrow> c = commandInfo exe"
  unfolding daemonReady_def Let_def
  by (auto dest!: pollDaemon_Ran simp: startDaemon_def split: if_splits)

lemma batchCmds_verbs:
  "c \<in> set (batchCmds exe p) \<Longrightarrow>
   Cmd.Args c ! 1 \<in> {''version'', ''info'', ''pull'', ''tag'', ''push'', ''rmi'', ''system''}"
  unfolding batchCmds_eq
  by (auto simp: cmd_defs Let_def split: if_splits)

lemma login_verb: "Cmd.Args (commandLogin exe l) ! 1 = ''login''"
  by (simp add: commandLogin_def commandLoginEmail_def Command_def)

lemma isCommandPull_commandPull: "isCommandPull (Cmd.Args (commandPull exe pl))"
  by (simp add: isCommandPull_def commandPull_def Command_def)

lemma login_not_info: "commandLogin exe l \<noteq> commandInfo exe'"
proof
  assume "commandLogin exe l = commandInfo exe'"
  then have "Stdin (commandLogin exe l) = Stdin (commandInfo exe')" by simp
  then show False
    by (simp add: commandLogin_def commandLoginEmail_def commandInfo_def Command_def
             split: if_splits)
qed

lemma login_not_pull: "Cmd.Args (commandLogin exe l) \<noteq> Cmd.Args (commandPull exe' pl)"
  by (simp add: commandLogin_def commandLoginEmail_def commandPull_def Command_def)

lemma Exec_only_pulls_fail:
  assumes "\<And>h c. sys h c \<noteq> None \<Longrightarrow> isCommandPull (Cmd.Args c)"
    and "sys (daemonReady exe exed sys p) (commandLogin exe (Login p)) = None"
  shows "fst (Exec exe exed sys p) = None"
  using assms(2) runCmds_only_pulls_fail [of sys, OF assms(1)]
  by (simp add: Exec_def loginAndBatch_def Let_def)

lemma runCmds_attempts: "attempts exe (snd (runCmds sys cmds h)) = attempts exe h"
proof (induction cmds arbitrary: h)
  case Nil
  show ?case by simp
next
  case (Cons cmd cmds)
  have a: "attempts exe ((trace (withStd cmd) h @ [Ran (withStd cmd)]) @ h') = attempts exe h"
    if "attempts exe h' = 0" for h'
    using that withStd_not_info [of cmd exe]
    by (simp add: attempts_append) (simp add: attempts_def trace_def)
  show ?case
  proof (cases "sys (trace (withStd cmd) h) (withStd cmd) = None")
    case True
    then show ?thesis
      using Cons.IH [of "trace (withStd cmd) h @ [Ran (withStd cmd)]"] a [of "[]"]
      by (simp add: runCmds_Cons attempts_def)
  next
    case False
    show ?thesis
    proof (cases "isCommandPull (Cmd.Args cmd)")
      case True
      let ?m = "Printed (''Could not pull cache-from image '' @ Cmd.Args cmd ! 2 @ ''. Ignoring...'' @ newline)"
      have "attempts exe [?m] = 0" by (simp add: attempts_def)
      from a [OF this] True False show ?thesis
        using Cons.IH [of "(trace (withStd cmd) h @ [Ran (withStd cmd)]) @ [?m]"]
        by (simp add: runCmds_Cons)
    next
      case notpull: False
      with False show ?thesis using a [of "[]"] by (simp add: runCmds_Cons attempts_def)
    qed
  qed
qed

lemma loginAndBatch_attempts:
  "attempts exe (snd (loginAndBatch exe sys p h)) = attempts exe h"
  using login_not_info [of exe "Login p" exe]
  by (simp add: loginAndBatch_def Let_def runCmds_attempts split: option.splits)
     (simp add: attempts_def)

lemma daemonReady_never:
  assumes "\<And>h. sys h (commandInfo exe) \<noteq> None"
  shows "daemonReady exe exed sys p =
           (if \<not> Disabled (Daemon p) then [Started (commandDaemon exed (Daemon p))] else [])
           @ concat (replicate 15 (pollRound exe))"
  unfolding daemonReady_def Let_def
  by (subst pollDaemon_never_ready) (simp_all add: assms startDaemon_def)

text \<open>The failure policy of the execution loop for a command that is not recognised as
  a pull: the loop stops there and returns the command's error.\<close>

lemma runCmds_abort:
  "sys (trace (withStd cmd) h) (withStd cmd) = Some e \<Longrightarrow> \<not> isCommandPull (Cmd.Args cmd) \<Longrightarrow>
   runCmds sys (cmd # cmds) h = (Some e, trace (withStd cmd) h @ [Ran (withStd cmd)])"
  by (simp add: runCmds_Cons)

section \<open>The orchestration in \<^verbatim>\<open>Exec\<close>\<close>

text \<open>
  C1, evaluated on the code. The claim asks that a failure of the real pull of the source
  image aborts the run. In the specification's scenario, in a world where that pull (and
  nothing else) exits non-zero, \<^verbatim>\<open>Exec\<close> returns \<^verbatim>\<open>nil\<close>: it prints the
  cache-from notice for the source image and goes on to run every tag, push and cleanup
  command after the failed pull.
\<close>

theorem Exec_source_pull_failure_ignored:
  "fst (Exec ''docker'' ''dockerd'' pullFails scenario) = None
   \<and> ranArgs (snd (Exec ''docker'' ''dockerd'' pullFails scenario)) =
       [[''docker'', ''info''],
        [''docker'', ''version''], [''docker'', ''info''],
        [''docker'', ''pull'', ''acct/img@sha256:abc''],
        [''docker'', ''tag'', ''acct/img@sha256:abc'', ''r.example/acct/img:v1''],
        [''docker'', ''push'', ''r.example/acct/img:v1''],
        [''docker'', ''tag'', ''acct/img@sha256:abc'', ''r.example/acct/img:v2''],
        [''docker'', ''push'', ''r.example/acct/img:v2''],
        [''docker'', ''rmi'', ''acct/img@sha256:abc''],
        [''docker'', ''system'', ''prune'', ''-f'']]
   \<and> ''Could not pull cache-from image acct/img@sha256:abc. Ignoring...'' @ newline
       \<in> set (printed (snd (Exec ''docker'' ''dockerd'' pullFails scenario)))"
  by (simp add: Exec_def daemonReady_def loginAndBatch_def pollDaemon_ready batchCmds_def
        scenario_def Let_def cmd_defs runCmds_Cons trace_def withStd_def pullFails_def
        isCommandPull_def)

text \<open>
  C2. For every configuration the batch is, in this order: the version probe, the info
  probe, one pull, then for each entry of \<^verbatim>\<open>Tags\<close> in list order one tag command followed,
  unless \<^verbatim>\<open>Dryrun\<close> is set, by the push of the same tag, and last, when \<^verbatim>\<open>Cleanup\<close> is
  set, the remove-image command and the prune command. The equation leaves room for no
  other command.
\<close>

theorem batchCmds_order:
  "batchCmds exe p =
     [commandVersion exe, commandInfo exe, commandPull exe (Plugin.Pull p)]
     @ concat (map (\<lambda>tag. if Dryrun p
                     then [commandTag exe (Plugin.Pull p) tag (Daemon.Registry (Daemon p))]
                     else [commandTag exe (Plugin.Pull p) tag (Daemon.Registry (Daemon p)),
                           commandPush exe (Plugin.Pull p) tag (Daemon.Registry (Daemon p))])
               (Plugin.Tags p))
     @ (if Cleanup p then [commandRmi exe (Plugin.Pull p), commandPrune exe] else [])"
  by (rule batchCmds_eq)

theorem batchCmds_order_witness:
  "map Cmd.Args (batchCmds ''docker'' scenario) =
     [[''docker'', ''version''], [''docker'', ''info''],
      [''docker'', ''pull'', ''acct/img@sha256:abc''],
      [''docker'', ''tag'', ''acct/img@sha256:abc'', ''r.example/acct/img:v1''],
      [''docker'', ''push'', ''r.example/acct/img:v1''],
      [''docker'', ''tag'', ''acct/img@sha256:abc'', ''r.example/acct/img:v2''],
      [''docker'', ''push'', ''r.example/acct/img:v2''],
      [''docker'', ''rmi'', ''acct/img@sha256:abc''],
      [''docker'', ''system'', ''prune'', ''-f'']]
   \<and> map Cmd.Args (batchCmds ''docker'' (scenario\<lparr>Dryrun := True, Cleanup := False\<rparr>)) =
     [[''docker'', ''version''], [''docker'', ''info''],
      [''docker'', ''pull'', ''acct/img@sha256:abc''],
      [''docker'', ''tag'', ''acct/img@sha256:abc'', ''r.example/acct/img:v1''],
      [''docker'', ''tag'', ''acct/img@sha256:abc'', ''r.example/acct/img:v2'']]"
  using batchCmds_order [of "''docker''" scenario]
        batchCmds_order [of "''docker''" "scenario\<lparr>Dryrun := True, Cleanup := False\<rparr>"]
  by (simp add: scenario_def cmd_defs)



text \<open>
  C4. With a non-empty password the login command is run right after the readiness loop
  and before anything of the batch; when it fails, \<^verbatim>\<open>Exec\<close> returns at once the error
  whose text is \<^verbatim>\<open>Error authenticating: \<close> followed by the text of the underlying error,
  and when it succeeds the batch is run. With an empty password the guest-mode notice is
  printed, the batch is run, no command run in the whole of \<^verbatim>\<open>Exec\<close> is a login
  command, and \<^verbatim>\<open>Exec\<close> returns \<^verbatim>\<open>nil\<close> when the batch commands succeed.
\<close>

theorem login_step:
  "(Password (Login p) \<noteq> '''' \<longrightarrow>
      prefix (daemonReady exe exed sys p @ [Ran (commandLogin exe (Login p))])
             (snd (Exec exe exed sys p))
      \<and> (\<forall>e. sys (daemonReady exe exed sys p) (commandLogin exe (Login p)) = Some e \<longrightarrow>
            Exec exe exed sys p =
              (Some (Errorf (''Error authenticating: '' @ Error e)),
               daemonReady exe exed sys p @ [Ran (commandLogin exe (Login p))]))
      \<and> (sys (daemonReady exe exed sys p) (commandLogin exe (Login p)) = None \<longrightarrow>
            Exec exe exed sys p =
              runCmds sys (batchCmds exe p)
                (daemonReady exe exed sys p @ [Ran (commandLogin exe (Login p))])))
   \<and> (Password (Login p) = '''' \<longrightarrow>
        Exec exe exed sys p =
          runCmds sys (batchCmds exe p)
            (daemonReady exe exed sys p @
             [Printed (''Registry credentials not provided. Guest mode enabled.'' @ newline)])
        \<and> (\<forall>c. Ran c \<in> set (snd (Exec exe exed sys p)) \<longrightarrow> Cmd.Args c ! 1 \<noteq> ''login'')
        \<and> ((\<forall>c \<in> set (batchCmds exe p). \<forall>h. sys h (withStd c) = None) \<longrightarrow>
             fst (Exec exe exed sys p) = None))"
proof (intro conjI impI allI)
  assume pw: "Password (Login p) \<noteq> ''''"
  show "prefix (daemonReady exe exed sys p @ [Ran (commandLogin exe (Login p))])
             (snd (Exec exe exed sys p))"
    using pw runCmds_prefix [of "daemonReady exe exed sys p @ [Ran (commandLogin exe (Login p))]" sys "batchCmds exe p"]
    by (simp add: Exec_def loginAndBatch_def Let_def split: option.splits)
next
  fix e
  assume "Password (Login p) \<noteq> ''''"
    and "sys (daemonReady exe exed sys p) (commandLogin exe (Login p)) = Some e"
  then show "Exec exe exed sys p =
              (Some (Errorf (''Error authenticating: '' @ Error e)),
               daemonReady exe exed sys p @ [Ran (commandLogin exe (Login p))])"
    by (simp add: Exec_def loginAndBatch_def Let_def)
next
  assume "Password (Login p) \<noteq> ''''"
    and "sys (daemonReady exe exed sys p) (commandLogin exe (Login p)) = None"
  then show "Exec exe exed sys p =
              runCmds sys (batchCmds exe p)
                (daemonReady exe exed sys p @ [Ran (commandLogin exe (Login p))])"
    by (simp add: Exec_def loginAndBatch_def Let_def)
next
  assume pw: "Password (Login p) = ''''"
  then show guest: "Exec exe exed sys p =
          runCmds sys (batchCmds exe p)
            (daemonReady exe exed sys p @
             [Printed (''Registry credentials not provided. Guest mode enabled.'' @ newline)])"
    by (simp add: Exec_def loginAndBatch_def Let_def)
  {
    fix c
    assume "Ran c \<in> set (snd (Exec exe exed sys p))"
    then have "Ran c \<in> set (daemonReady exe exed sys p @
             [Printed (''Registry credentials not provided. Guest mode enabled.'' @ newline)])
           \<or> (\<exists>cmd \<in> set (batchCmds exe p). c = withStd cmd)"
      unfolding guest by (rule runCmds_Ran)
    then show "Cmd.Args c ! 1 \<noteq> ''login''"
    proof
      assume "Ran c \<in> set (daemonReady exe exed sys p @
             [Printed (''Registry credentials not provided. Guest mode enabled.'' @ newline)])"
      then have "c = commandInfo exe" by (auto dest: daemonReady_Ran)
      then show ?thesis by (simp add: cmd_defs)
    next
      assume "\<exists>cmd \<in> set (batchCmds exe p). c = withStd cmd"
      then obtain cmd where "cmd \<in> set (batchCmds exe p)" and c: "c = withStd cmd" by blast
      from batchCmds_verbs [OF this(1)] show ?thesis unfolding c by auto
    qed
  }
  {
    assume "\<forall>c \<in> set (batchCmds exe p). \<forall>h. sys h (withStd c) = None"
    then show "fst (Exec exe exed sys p) = None"
      unfolding guest by (intro runCmds_all_succeed) blast
  }
qed

theorem login_step_witness:
  "Exec ''docker'' ''dockerd'' loginFails (scenario\<lparr>Login := someLogin\<rparr>) =
     (Some (Errorf ''Error authenticating: exit status 1''),
      [Ran (commandInfo ''docker''), Ran (commandLogin ''docker'' someLogin)])
   \<and> fst (Exec ''docker'' ''dockerd'' (\<lambda>h c. None) scenario) = None"
proof
  let ?p = "scenario\<lparr>Login := someLogin\<rparr>"
  have pw: "Password (Login ?p) \<noteq> ''''" by (simp add: someLogin_def)
  have l: "Login ?p = someLogin" by simp
  have r: "daemonReady ''docker'' ''dockerd'' loginFails ?p = [Ran (commandInfo ''docker'')]"
    by (simp add: daemonReady_def scenario_def pollDaemon_ready loginFails_def cmd_defs)
  have f: "loginFails (daemonReady ''docker'' ''dockerd'' loginFails ?p)
             (commandLogin ''docker'' (Login ?p)) = Some exitStatus1"
    by (simp add: loginFails_def commandLogin_def commandLoginEmail_def Command_def
          someLogin_def)
  from login_step [where p = ?p and sys = loginFails and exe = "''docker''"
         and exed = "''dockerd''"] pw f
  have "Exec ''docker'' ''dockerd'' loginFails ?p =
          (Some (Errorf (''Error authenticating: '' @ Error exitStatus1)),
           daemonReady ''docker'' ''dockerd'' loginFails ?p
           @ [Ran (commandLogin ''docker'' (Login ?p))])"
    by blast
  then show "Exec ''docker'' ''dockerd'' loginFails ?p =
     (Some (Errorf ''Error authenticating: exit status 1''),
      [Ran (commandInfo ''docker''), Ran (commandLogin ''docker'' someLogin)])"
    unfolding r l by (simp add: exitStatus1_def)
next
  have g: "Password (Login scenario) = ''''" by (simp add: scenario_def)
  have ok: "\<forall>c \<in> set (batchCmds ''docker'' scenario). \<forall>h. (\<lambda>h c. None) h (withStd c) = None"
    by simp
  from login_step [where p = scenario and sys = "\<lambda>h c. None" and exe = "''docker''"
         and exed = "''dockerd''"] g ok
  show "fst (Exec ''docker'' ''dockerd'' (\<lambda>h c. None) scenario) = None"
    by blast
qed

section \<open>The login command\<close>



section \<open>The readiness poll\<close>

text \<open>
  C6. The readiness loop makes at most 15 probes. When the first successful probe is the
  one after \<open>k < 15\<close> failed ones, the loop ends with it, each failed probe having been
  followed by a sleep of one second. When all 15 probes fail the loop ends after the
  fifteenth round (probe and sleep) and returns nothing to tell it apart: \<^verbatim>\<open>Exec\<close> goes on
  to the login step and the batch from there, the poll's probe is run exactly 15 times, and
  \<^verbatim>\<open>Exec\<close> returns \<^verbatim>\<open>nil\<close> when everything but the poll's probe succeeds.
\<close>

theorem pollDaemon_soft_timeout:
  "attempts exe (pollDaemon exe sys 0 h) \<le> attempts exe h + 15
   \<and> (\<forall>k<15. (\<forall>j<k. sys (h @ concat (replicate j (pollRound exe))) (commandInfo exe) \<noteq> None)
         \<and> sys (h @ concat (replicate k (pollRound exe))) (commandInfo exe) = None
         \<longrightarrow> pollDaemon exe sys 0 h =
               h @ concat (replicate k (pollRound exe)) @ [Ran (commandInfo exe)])
   \<and> ((\<forall>j<15. sys (h @ concat (replicate j (pollRound exe))) (commandInfo exe) \<noteq> None)
         \<longrightarrow> pollDaemon exe sys 0 h = h @ concat (replicate 15 (pollRound exe)))
   \<and> ((\<forall>h. sys h (commandInfo exe) \<noteq> None) \<longrightarrow>
         Exec exe exed sys p =
           loginAndBatch exe sys p
             ((if \<not> Disabled (Daemon p) then [Started (commandDaemon exed (Daemon p))] else [])
              @ concat (replicate 15 (pollRound exe)))
         \<and> attempts exe (snd (Exec exe exed sys p)) = 15)
   \<and> ((\<forall>h. sys h (commandInfo exe) \<noteq> None) \<and> (\<forall>h c. c \<noteq> commandInfo exe \<longrightarrow> sys h c = None)
         \<longrightarrow> fst (Exec exe exed sys p) = None)"
proof (intro conjI impI allI)
  show "attempts exe (pollDaemon exe sys 0 h) \<le> attempts exe h + 15"
    by (rule pollDaemon_attempts)
next
  fix k :: nat
  assume "k < 15"
    and "(\<forall>j<k. sys (h @ concat (replicate j (pollRound exe))) (commandInfo exe) \<noteq> None)
         \<and> sys (h @ concat (replicate k (pollRound exe))) (commandInfo exe) = None"
  then show "pollDaemon exe sys 0 h =
               h @ concat (replicate k (pollRound exe)) @ [Ran (commandInfo exe)]"
    by (intro pollDaemon_first_ready) simp_all
next
  assume "\<forall>j<15. sys (h @ concat (replicate j (pollRound exe))) (commandInfo exe) \<noteq> None"
  then show "pollDaemon exe sys 0 h = h @ concat (replicate 15 (pollRound exe))"
    by (rule pollDaemon_never_ready)
next
  assume never: "\<forall>h. sys h (commandInfo exe) \<noteq> None"
  have ready: "daemonReady exe exed sys p =
           (if \<not> Disabled (Daemon p) then [Started (commandDaemon exed (Daemon p))] else [])
           @ concat (replicate 15 (pollRound exe))"
    by (rule daemonReady_never) (rule never [rule_format])
  show "Exec exe exed sys p =
           loginAndBatch exe sys p
             ((if \<not> Disabled (Daemon p) then [Started (commandDaemon exed (Daemon p))] else [])
              @ concat (replicate 15 (pollRound exe)))"
    unfolding Exec_def ready ..
  show "attempts exe (snd (Exec exe exed sys p)) = 15"
    unfolding Exec_def ready loginAndBatch_attempts
    by (simp add: attempts_append attempts_rounds) (simp add: attempts_def)
next
  assume both: "(\<forall>h. sys h (commandInfo exe) \<noteq> None)
                \<and> (\<forall>h c. c \<noteq> commandInfo exe \<longrightarrow> sys h c = None)"
  then have others: "\<forall>h c. c \<noteq> commandInfo exe \<longrightarrow> sys h c = None" by (rule conjunct2)
  have login: "sys h' (commandLogin exe (Login p)) = None" for h'
    by (rule others [rule_format]) (rule login_not_info)
  have batch: "sys h' (withStd c) = None" for h' c
    by (rule others [rule_format]) (rule withStd_not_info)
  have "fst (runCmds sys (batchCmds exe p) h') = None" for h'
    by (rule runCmds_all_succeed) (rule batch)
  then show "fst (Exec exe exed sys p) = None"
    by (simp add: Exec_def loginAndBatch_def Let_def login)
qed

theorem pollDaemon_soft_timeout_witness:
  "pollDaemon ''docker'' neverReady 0 [] = concat (replicate 15 (pollRound ''docker''))
   \<and> attempts ''docker'' (snd (Exec ''docker'' ''dockerd'' neverReady scenario)) = 15
   \<and> fst (Exec ''docker'' ''dockerd'' neverReady scenario) = None"
proof -
  have never: "\<forall>h. neverReady h (commandInfo ''docker'') \<noteq> None"
    by (simp add: neverReady_def)
  have others: "\<forall>h c. c \<noteq> commandInfo ''docker'' \<longrightarrow> neverReady h c = None"
    by (simp add: neverReady_def)
  have first: "\<forall>j<15. neverReady ([] @ concat (replicate j (pollRound ''docker'')))
                         (commandInfo ''docker'') \<noteq> None"
    using never by blast
  from pollDaemon_soft_timeout [where exe = "''docker''" and exed = "''dockerd''"
         and sys = neverReady and p = scenario and h = "[]"] never others first
  have "pollDaemon ''docker'' neverReady 0 [] = [] @ concat (replicate 15 (pollRound ''docker''))
        \<and> attempts ''docker'' (snd (Exec ''docker'' ''dockerd'' neverReady scenario)) = 15
        \<and> fst (Exec ''docker'' ''dockerd'' neverReady scenario) = None"
    by blast
  then show ?thesis by (simp only: append_Nil)
qed

section \<open>Image references, proxy arguments and daemon flags\<close>

text \<open>
  C7. For every pull configuration the pull command's image target is the repository, an
  at sign and the digest, with nothing added (its length is the sum of the three); the
  tag command's source and the remove-image command's target are the same string.
\<close>

theorem pull_target_exact:
  "Cmd.Args (commandPull exe pl) = [exe, ''pull'', Pull.Repo pl @ ''@'' @ Sha pl]
   \<and> Cmd.Args (commandTag exe pl tag reg) ! 2 = Pull.Repo pl @ ''@'' @ Sha pl
   \<and> Cmd.Args (commandRmi exe pl) = [exe, ''rmi'', Pull.Repo pl @ ''@'' @ Sha pl]
   \<and> length (Cmd.Args (commandPull exe pl) ! 2) = length (Pull.Repo pl) + 1 + length (Sha pl)"
  by (simp add: commandPull_def commandTag_def commandRmi_def Command_def)

theorem pull_target_exact_witness:
  "Cmd.Args (commandPull ''docker'' \<lparr>Pull.Repo = ''acct/img'', Sha = ''sha256:abc''\<rparr>)
     = [''docker'', ''pull'', ''acct/img@sha256:abc'']
   \<and> Cmd.Args (commandTag ''docker'' \<lparr>Pull.Repo = ''acct/img'', Sha = ''sha256:abc''\<rparr>
                  ''v1'' ''r.example'') ! 2
     = ''acct/img@sha256:abc''
   \<and> Cmd.Args (commandRmi ''docker'' \<lparr>Pull.Repo = ''acct/img'', Sha = ''sha256:abc''\<rparr>)
     = [''docker'', ''rmi'', ''acct/img@sha256:abc'']"
  using pull_target_exact [of "''docker''" "\<lparr>Pull.Repo = ''acct/img'', Sha = ''sha256:abc''\<rparr>"
                              "''v1''" "''r.example''"]
  by simp

text \<open>
  C8. For every tag and registry the tag command's destination is the registry, a slash,
  the repository, a colon and the tag; the push command's target is that same string;
  and with an empty registry the string starts with the slash.
\<close>

theorem tag_push_destination:
  "Cmd.Args (commandTag exe pl tag reg)
     = [exe, ''tag'', Pull.Repo pl @ ''@'' @ Sha pl, reg @ ''/'' @ Pull.Repo pl @ '':'' @ tag]
   \<and> Cmd.Args (commandPush exe pl tag reg) = [exe, ''push'', reg @ ''/'' @ Pull.Repo pl @ '':'' @ tag]
   \<and> Cmd.Args (commandPush exe pl tag reg) ! 2 = Cmd.Args (commandTag exe pl tag reg) ! 3
   \<and> Cmd.Args (commandTag exe pl tag '''') ! 3 = ''/'' @ Pull.Repo pl @ '':'' @ tag
   \<and> Cmd.Args (commandPush exe pl tag '''') ! 2 = ''/'' @ Pull.Repo pl @ '':'' @ tag"
  by (simp add: commandTag_def commandPush_def Command_def)

theorem tag_push_destination_witness:
  "Cmd.Args (commandTag ''docker'' \<lparr>Pull.Repo = ''acct/img'', Sha = ''sha256:abc''\<rparr> ''v1'' '''')
     = [''docker'', ''tag'', ''acct/img@sha256:abc'', ''/acct/img:v1'']
   \<and> Cmd.Args (commandPush ''docker'' \<lparr>Pull.Repo = ''acct/img'', Sha = ''sha256:abc''\<rparr> ''v1'' '''')
     = [''docker'', ''push'', ''/acct/img:v1'']"
  using tag_push_destination [of "''docker''" "\<lparr>Pull.Repo = ''acct/img'', Sha = ''sha256:abc''\<rparr>"
                                 "''v1''" "''''"]
  by simp

text \<open>
  C9. For every key and build configuration: when the environment gives the key a value
  (the key as written is looked up first, its upper-case form only when that is empty)
  and no build argument starts with the key or with its upper-case form, the augmenter
  appends the key with the value and then the upper-cased key with the value; when some
  build argument starts with either form, or the environment gives no value, the build
  configuration is returned as it was. A variable set to the empty string counts as not
  set, since \<^verbatim>\<open>os.Getenv\<close> does not tell the two apart.
\<close>

theorem addProxyValue_appends:
  "(getProxyValue getenv upper key \<noteq> '''' \<and>
    \<not> (\<exists>s \<in> set (Build.Args b). prefix key s \<or> prefix (upper key) s)
      \<longrightarrow> addProxyValue getenv upper b key =
            b\<lparr>Build.Args := Build.Args b @
                 [key @ ''='' @ getProxyValue getenv upper key,
                  upper key @ ''='' @ getProxyValue getenv upper key]\<rparr>)
   \<and> ((\<exists>s \<in> set (Build.Args b). prefix key s \<or> prefix (upper key) s)
      \<longrightarrow> addProxyValue getenv upper b key = b)
   \<and> (getProxyValue getenv upper key = '''' \<longrightarrow> addProxyValue getenv upper b key = b)
   \<and> getProxyValue getenv upper key =
       (if getenv key \<noteq> '''' then getenv key else getenv (upper key))"
  by (simp add: addProxyValue_def hasProxyBuildArg_def hasProxyLoop_iff getProxyValue_def Let_def)

theorem addProxyValue_appends_witness:
  "Build.Args (addProxyValue upperEnv asciiUpper (someBuild [''a=b'']) ''http_proxy'')
     = [''a=b'', ''http_proxy=foo'', ''HTTP_PROXY=foo'']
   \<and> Build.Args (addProxyValue upperEnv asciiUpper (someBuild [''HTTP_PROXY=bar'']) ''http_proxy'')
     = [''HTTP_PROXY=bar'']"
  using addProxyValue_appends [where getenv = upperEnv and upper = asciiUpper
          and key = "''http_proxy''" and b = "someBuild [''a=b'']"]
        addProxyValue_appends [where getenv = upperEnv and upper = asciiUpper
          and key = "''http_proxy''" and b = "someBuild [''HTTP_PROXY=bar'']"]
  by (simp add: asciiUpper_http upperEnv_def someBuild_def)

text \<open>
  C10, as the code has it. The claim fails for the storage path: with every field empty or
  false the daemon command still carries \<^verbatim>\<open>--data-root\<close>, followed by the empty path.
\<close>

theorem commandDaemon_data_root_counterexample:
  "StoragePath emptyDaemon = '''' \<and>
   ''--data-root'' \<in> set (Cmd.Args (commandDaemon ''dockerd'' emptyDaemon)) \<and>
   Cmd.Args (commandDaemon ''dockerd'' emptyDaemon) = [''dockerd'', ''--data-root'', '''']"
  by (simp add: emptyDaemon_def commandDaemon_def Command_def)

text \<open>
  C10, amended. The daemon command always starts with \<^verbatim>\<open>--data-root\<close> and the storage
  path, empty or not. After them come, in this order and only under the condition named:
  \<^verbatim>\<open>-s\<close> with the storage driver when it is not empty, \<^verbatim>\<open>--insecure-registry\<close> with the
  registry when \<^verbatim>\<open>Insecure\<close> is set and the registry is not empty, \<^verbatim>\<open>--ipv6\<close> when \<^verbatim>\<open>IPv6\<close>
  is set, \<^verbatim>\<open>--registry-mirror\<close> with the mirror when it is not empty, \<^verbatim>\<open>--bip\<close> with the
  bridge address when it is not empty, one \<^verbatim>\<open>--dns\<close> for each DNS server, one
  \<^verbatim>\<open>--dns-search\<close> for each search domain, \<^verbatim>\<open>--mtu\<close> with the MTU when it is not empty,
  and \<^verbatim>\<open>--experimental\<close> when \<^verbatim>\<open>Experimental\<close> is set. Nothing else is emitted.
\<close>

theorem commandDaemon_flags:
  "Cmd.Args (commandDaemon exe d) =
     [exe, ''--data-root'', StoragePath d]
     @ (if StorageDriver d \<noteq> '''' then [''-s'', StorageDriver d] else [])
     @ (if Insecure d \<and> Daemon.Registry d \<noteq> ''''
        then [''--insecure-registry'', Daemon.Registry d] else [])
     @ (if IPv6 d then [''--ipv6''] else [])
     @ (if Mirror d \<noteq> '''' then [''--registry-mirror'', Mirror d] else [])
     @ (if Bip d \<noteq> '''' then [''--bip'', Bip d] else [])
     @ concat (map (\<lambda>v. [''--dns'', v]) (DNS d))
     @ concat (map (\<lambda>v. [''--dns-search'', v]) (DNSSearch d))
     @ (if MTU d \<noteq> '''' then [''--mtu'', MTU d] else [])
     @ (if Experimental d then [''--experimental''] else [])"
  by (simp add: commandDaemon_def Command_def Let_def appendEach_eq)

theorem commandDaemon_flags_witness:
  "Cmd.Args (commandDaemon ''dockerd'' someDaemon) =
     [''dockerd'', ''--data-root'', '''', ''-s'', ''overlay2'', ''--insecure-registry'',
      ''r.example'', ''--dns'', ''8.8.8.8'', ''--dns'', ''1.1.1.1'', ''--experimental'']"
  using commandDaemon_flags [of "''dockerd''" someDaemon]
  by (simp add: someDaemon_def)

end
